theory Spec2Isabelle
  imports Complex_Main "HOL-Library.Word" "HOL-Library.Log_Nat"
begin

section \<open>Single-axis image stretch (libImaging/Antialias.c)\<close>

text \<open>
  A shallow embedding of \<^verbatim>\<open>ImagingStretch\<close> and of the four resampling filters it
  selects from.  The C code computes its coefficients in \<^verbatim>\<open>float\<close> and \<^verbatim>\<open>double\<close>;
  every value of these types is a real number here, and every point where C rounds a
  result to one of the two formats is an explicit call of a rounding operation of the
  arithmetic environment \<open>fpenv\<close>.  The environment of the program is \<open>ieee754\<close>:
  binary32 and binary64 with round-to-nearest-even.  The accumulators of the
  convolution are 32-bit \<^verbatim>\<open>int\<close> values and wrap around; sizes and indices are \<open>int\<close>.
\<close>

subsection \<open>Floating-point environment\<close>

text \<open>
  \<open>to_float\<close> and \<open>to_double\<close> round a real result to the format; \<open>libm_sin\<close> is
  \<^verbatim>\<open>sin\<close> of the C library; \<open>to_int\<close> is the cast \<^verbatim>\<open>(int)\<close> of a finite value;
  \<open>int_indefinite\<close> is what the cast gives for a NaN or an infinity.
\<close>

record fpenv =
  to_float :: "real \<Rightarrow> real"
  to_double :: "real \<Rightarrow> real"
  libm_sin :: "real \<Rightarrow> real"
  to_int :: "real \<Rightarrow> int"
  int_indefinite :: int

text \<open>Round to the nearest integer, ties to the even one.\<close>

definition rne :: "real \<Rightarrow> int" where
  "rne m = (let f = \<lfloor>m\<rfloor>; d = m - of_int f
            in if d < 1 / 2 then f else if 1 / 2 < d then f + 1
               else if even f then f else f + 1)"

text \<open>The binary exponent of a positive real: \<open>2 ^ e \<le> x < 2 ^ (e + 1)\<close>.\<close>

definition ilog2 :: "real \<Rightarrow> int" where
  "ilog2 x = (if 1 \<le> x then bitlen \<lfloor>x\<rfloor> - 1 else - bitlen (\<lceil>1 / x\<rceil> - 1))"

definition pow2 :: "int \<Rightarrow> real" where
  "pow2 q = (if 0 \<le> q then 2 ^ nat q else 1 / 2 ^ nat (- q))"

text \<open>
  Rounding to a binary format with \<open>p\<close> significant bits whose smallest subnormal is
  \<open>2 ^ qmin\<close>: the value is rounded to the nearest multiple of the unit in the last
  place, ties to even.  The exponent range is not bounded above (no value of this
  program comes near the largest finite number of either format).
\<close>

definition fl_round :: "nat \<Rightarrow> int \<Rightarrow> real \<Rightarrow> real" where
  "fl_round p qmin x =
     (if x = 0 then 0
      else let q = max (ilog2 \<bar>x\<bar> - (int p - 1)) qmin
           in sgn x * of_int (rne (\<bar>x\<bar> / pow2 q)) * pow2 q)"

text \<open>Truncation toward zero, the value of \<^verbatim>\<open>(int) x\<close> when it fits.\<close>

definition trunc :: "real \<Rightarrow> int" where
  "trunc x = (if 0 \<le> x then \<lfloor>x\<rfloor> else \<lceil>x\<rceil>)"

text \<open>
  The arithmetic of an x86-64 build: \<^verbatim>\<open>float\<close> is binary32, \<^verbatim>\<open>double\<close> is binary64,
  \<^verbatim>\<open>sin\<close> of the C library is taken as correctly rounded, and the conversion to
  \<^verbatim>\<open>int\<close> of a NaN, of an infinity or of a value outside the range of \<^verbatim>\<open>int\<close> gives
  \<^verbatim>\<open>INT_MIN\<close>.
\<close>

definition ieee754 :: fpenv where
  "ieee754 = \<lparr> to_float = fl_round 24 (- 149), to_double = fl_round 53 (- 1074),
               libm_sin = (\<lambda>x. fl_round 53 (- 1074) (sin x)),
               to_int = (\<lambda>x. if - 2147483649 < x \<and> x < 2147483648 then trunc x
                               else - 2147483648),
               int_indefinite = - 2147483648 \<rparr>"

text \<open>
  One operation on two \<^verbatim>\<open>float\<close> operands (\<open>f...\<close>) or with a \<^verbatim>\<open>double\<close> operand
  (\<open>d...\<close>), rounded to the type of the result.
\<close>

definition fadd :: "fpenv \<Rightarrow> real \<Rightarrow> real \<Rightarrow> real" where
  "fadd fp x y = to_float fp (x + y)"

definition fsub :: "fpenv \<Rightarrow> real \<Rightarrow> real \<Rightarrow> real" where
  "fsub fp x y = to_float fp (x - y)"

definition fmul :: "fpenv \<Rightarrow> real \<Rightarrow> real \<Rightarrow> real" where
  "fmul fp x y = to_float fp (x * y)"

definition fdiv :: "fpenv \<Rightarrow> real \<Rightarrow> real \<Rightarrow> real" where
  "fdiv fp x y = to_float fp (x / y)"

definition dadd :: "fpenv \<Rightarrow> real \<Rightarrow> real \<Rightarrow> real" where
  "dadd fp x y = to_double fp (x + y)"

definition dsub :: "fpenv \<Rightarrow> real \<Rightarrow> real \<Rightarrow> real" where
  "dsub fp x y = to_double fp (x - y)"

definition dmul :: "fpenv \<Rightarrow> real \<Rightarrow> real \<Rightarrow> real" where
  "dmul fp x y = to_double fp (x * y)"

definition ddiv :: "fpenv \<Rightarrow> real \<Rightarrow> real \<Rightarrow> real" where
  "ddiv fp x y = to_double fp (x / y)"

subsection \<open>Resampling filters\<close>

text \<open>\<^verbatim>\<open>struct filter\<close>: the kernel and its support radius.\<close>

record filter_s =
  filter' :: "real \<Rightarrow> real"
  support :: real

text \<open>The literal of \<^verbatim>\<open>math.h\<close>; the compiler rounds it to a \<^verbatim>\<open>double\<close>.\<close>

definition M_PI :: real where
  "M_PI = 314159265358979323846 / 100000000000000000000"

definition sinc_filter :: "fpenv \<Rightarrow> real \<Rightarrow> real" where
  "sinc_filter fp x0 =
     (if x0 = 0 then 1
      else let x = to_float fp (dmul fp x0 (to_double fp M_PI))
           in to_float fp (ddiv fp (libm_sin fp x) x))"

definition antialias_filter :: "fpenv \<Rightarrow> real \<Rightarrow> real" where
  "antialias_filter fp x =
     (if - 3 \<le> x \<and> x < 3 then fmul fp (sinc_filter fp x) (sinc_filter fp (fdiv fp x 3))
      else 0)"

definition ANTIALIAS :: "fpenv \<Rightarrow> filter_s" where
  "ANTIALIAS fp = \<lparr> filter' = antialias_filter fp, support = 3 \<rparr>"

definition nearest_filter :: "real \<Rightarrow> real" where
  "nearest_filter x = (if - (1 / 2) \<le> x \<and> x < 1 / 2 then 1 else 0)"

definition NEAREST :: filter_s where
  "NEAREST = \<lparr> filter' = nearest_filter, support = 1 / 2 \<rparr>"

definition bilinear_filter :: "fpenv \<Rightarrow> real \<Rightarrow> real" where
  "bilinear_filter fp x0 =
     (let x = (if x0 < 0 then - x0 else x0)
      in if x < 1 then to_float fp (dsub fp 1 x) else 0)"

definition BILINEAR :: "fpenv \<Rightarrow> filter_s" where
  "BILINEAR fp = \<lparr> filter' = bilinear_filter fp, support = 1 \<rparr>"

text \<open>
  \<^verbatim>\<open>#define a 0.0\<close>.  The second branch is the source's
  \<^verbatim>\<open>(((a * x) - 5*a) * x + 8) * x - 4*a\<close>, with the literal \<^verbatim>\<open>8\<close> it has there.
\<close>

definition bicubic_filter :: "fpenv \<Rightarrow> real \<Rightarrow> real" where
  "bicubic_filter fp x0 =
     (let a = 0;
          x = (if x0 < 0 then - x0 else x0)
      in if x < 1 then
           to_float fp
             (dadd fp (dmul fp (dmul fp (dsub fp (dmul fp (dadd fp a 2) x) (dadd fp a 3)) x) x) 1)
         else if x < 2 then
           to_float fp
             (dsub fp (dmul fp (dadd fp (dmul fp (dsub fp (dmul fp a x) (dmul fp 5 a)) x) 8) x)
                (dmul fp 4 a))
         else 0)"

definition BICUBIC :: "fpenv \<Rightarrow> filter_s" where
  "BICUBIC fp = \<lparr> filter' = bicubic_filter fp, support = 2 \<rparr>"

subsection \<open>Images, results and the fixed-point clip\<close>

text \<open>
  The fields of \<^verbatim>\<open>struct ImagingMemoryInstance\<close> that the function reads.  \<open>image'\<close> is
  \<^verbatim>\<open>char **image\<close>: one list of bytes for each row, four bytes for each pixel in the
  multi-band 8-bit modes.
\<close>

datatype imaging_type =
  IMAGING_TYPE_UINT8 | IMAGING_TYPE_INT32 | IMAGING_TYPE_FLOAT32 | IMAGING_TYPE_SPECIAL

record Imaging =
  mode :: string
  type :: imaging_type
  bands :: int
  xsize :: int
  ysize :: int
  image' :: "8 word list list"

text \<open>
  The \<^verbatim>\<open>int filter\<close> argument: one of the four identifiers of \<^verbatim>\<open>Imaging.h\<close>, or any
  other integer.
\<close>

datatype transform =
  IMAGING_TRANSFORM_NEAREST | IMAGING_TRANSFORM_ANTIALIAS | IMAGING_TRANSFORM_BILINEAR
  | IMAGING_TRANSFORM_BICUBIC | IMAGING_TRANSFORM_OTHER int

text \<open>
  The failures: \<^verbatim>\<open>ImagingError_ModeError\<close>, \<^verbatim>\<open>ImagingError_ValueError\<close>,
  \<^verbatim>\<open>ImagingError_Mismatch\<close>, \<^verbatim>\<open>ImagingError_MemoryError\<close>, and the \<^verbatim>\<open>return 0\<close> taken
  when the third allocation of the horizontal pass fails.
\<close>

datatype error = ModeError | ValueError | Mismatch | MemoryError | NullReturn

definition PRECISION_BITS :: nat where
  "PRECISION_BITS = 32 - 8 - 2"

definition clip8 :: "int \<Rightarrow> 8 word" where
  "clip8 in' =
     (if push_bit 8 (push_bit PRECISION_BITS 1) \<le> in' then 255
      else if in' \<le> 0 then 0
      else word_of_int (drop_bit PRECISION_BITS in'))"

subsection \<open>Coefficients of one destination index\<close>

text \<open>
  What the two coefficient loops leave behind for one destination index: the window
  \<open>[xmin, xmax)\<close>, the weights \<open>w\<close> as the first loop stores them (\<open>raw_k\<close>), their sum
  \<open>ww\<close>, the table \<^verbatim>\<open>k\<close> after the division by \<open>ww\<close> (\<open>norm_k\<close>) and the table
  \<^verbatim>\<open>intk\<close>.  When \<open>ww\<close> is zero the division gives NaN or an infinity in C: \<open>norm_k\<close>
  says nothing then, and every entry of \<open>intk\<close> is the indefinite integer.
\<close>

record coeffs =
  xmin :: int
  xmax :: int
  raw_k :: "real list"
  ww :: real
  norm_k :: "real list"
  intk :: "int list"

text \<open>
  The body of the loop over \<^verbatim>\<open>yy\<close> of the vertical pass up to the \<^verbatim>\<open>switch\<close>, and the
  body of the first loop over \<^verbatim>\<open>xx\<close> of the horizontal pass: the same statements, on
  \<^verbatim>\<open>ymin\<close>, \<^verbatim>\<open>ymax\<close>, \<^verbatim>\<open>imIn->ysize\<close> in the first and on \<^verbatim>\<open>xmin\<close>, \<^verbatim>\<open>xmax\<close>,
  \<^verbatim>\<open>imIn->xsize\<close> in the second.  \<^verbatim>\<open>floor\<close> and \<^verbatim>\<open>ceil\<close> are exact.
\<close>

definition coefficients ::
  "fpenv \<Rightarrow> filter_s \<Rightarrow> real \<Rightarrow> real \<Rightarrow> real \<Rightarrow> int \<Rightarrow> int \<Rightarrow> coeffs" where
  "coefficients fp filterp scale filterscale support' insize xx =
     (let center = to_float fp (dmul fp (dadd fp (of_int xx) (1 / 2)) scale);
          ss = to_float fp (ddiv fp 1 filterscale);
          lo0 = to_int fp (of_int \<lfloor>fsub fp center support'\<rfloor>);
          lo = (if lo0 < 0 then 0 else lo0);
          hi0 = to_int fp (of_int \<lceil>fadd fp center support'\<rceil>);
          hi = (if insize < hi0 then insize else hi0);
          ws = map (\<lambda>x. fmul fp
                    (filter' filterp
                       (to_float fp
                          (dmul fp (dadd fp (fsub fp (to_float fp (of_int x)) center) (1 / 2)) ss)))
                    ss) [lo..hi - 1];
          wsum = foldl (fadd fp) 0 ws;
          ks = map (\<lambda>w. fdiv fp w wsum) ws
      in \<lparr> xmin = lo, xmax = hi, raw_k = ws, ww = wsum, norm_k = ks,
           intk = (if wsum = 0 then map (\<lambda>w. int_indefinite fp) ws
                   else map (\<lambda>k. to_int fp (fmul fp k (push_bit PRECISION_BITS 1))) ks) \<rparr>)"

text \<open>
  \<^verbatim>\<open>kmax = (int) ceil(support) * 2 + 1\<close>: the number of entries that the tables \<^verbatim>\<open>k\<close>
  and \<^verbatim>\<open>intk\<close> have for one destination index.
\<close>

definition kmax :: "fpenv \<Rightarrow> real \<Rightarrow> int" where
  "kmax fp support' = to_int fp (of_int \<lceil>support'\<rceil>) * 2 + 1"

text \<open>
  The coefficient loops store \<^verbatim>\<open>k[x - xmin]\<close> for every \<^verbatim>\<open>x\<close> of the window and never
  compare the length of the window with \<^verbatim>\<open>kmax\<close>.  \<open>rows_fit\<close> says that the windows of
  all the destination indices \<open>0, \<dots>, outsize - 1\<close> have at most \<^verbatim>\<open>kmax\<close> entries, so
  that every store stays within the entries of its index.
\<close>

definition rows_fit :: "fpenv \<Rightarrow> filter_s \<Rightarrow> real \<Rightarrow> real \<Rightarrow> real \<Rightarrow> int \<Rightarrow> int \<Rightarrow> bool" where
  "rows_fit fp filterp scale filterscale support' insize outsize =
     list_all
       (\<lambda>i. let c = coefficients fp filterp scale filterscale support' insize (int i)
            in xmax c - xmin c \<le> kmax fp support')
       [0..<nat outsize]"

subsection \<open>The convolution of one pixel\<close>

text \<open>
  The arithmetic of \<^verbatim>\<open>int\<close>, 32 bits wide.  A sum or a product outside the range is
  undefined in C; the model takes the two's-complement result that the machine
  instruction leaves.
\<close>

definition wrap_int :: "int \<Rightarrow> int" where
  "wrap_int v = (v + 2147483648) mod 4294967296 - 2147483648"

text \<open>
  One of the accumulators \<^verbatim>\<open>ss0\<close>, \<^verbatim>\<open>ss1\<close>, \<^verbatim>\<open>ss2\<close>: it starts at
  \<^verbatim>\<open>1 << (PRECISION_BITS - 1)\<close> and adds, for each tap of the window, the source byte
  times the integer weight.  \<open>sample\<close> reads the byte of the band at a tap.
\<close>

definition accumulate :: "(int \<Rightarrow> 8 word) \<Rightarrow> coeffs \<Rightarrow> int" where
  "accumulate sample c =
     foldl (\<lambda>acc x. wrap_int (acc + wrap_int (uint (sample x) * intk c ! nat (x - xmin c))))
       (push_bit (PRECISION_BITS - 1) 1) [xmin c..xmax c - 1]"

text \<open>The three stores of one destination pixel: bytes 0, 1 and 2 of its four.\<close>

definition store_pixel :: "(nat \<Rightarrow> int \<Rightarrow> 8 word) \<Rightarrow> coeffs \<Rightarrow> 8 word list \<Rightarrow> nat \<Rightarrow> 8 word list" where
  "store_pixel sample c row xx =
     row[xx * 4 + 0 := clip8 (accumulate (sample 0) c),
         xx * 4 + 1 := clip8 (accumulate (sample 1) c),
         xx * 4 + 2 := clip8 (accumulate (sample 2) c)]"

subsection \<open>The two passes\<close>

text \<open>
  The loop \<^verbatim>\<open>for (xx = 0; xx < imOut->xsize; xx++)\<close> over the pixels of one destination
  row; \<open>sample xx\<close> reads the source bytes and \<open>cf xx\<close> is the coefficient entry that
  the body uses for the pixel \<open>xx\<close>.
\<close>

definition pixel_loop ::
  "(nat \<Rightarrow> nat \<Rightarrow> int \<Rightarrow> 8 word) \<Rightarrow> (nat \<Rightarrow> coeffs) \<Rightarrow> nat \<Rightarrow> 8 word list \<Rightarrow> 8 word list" where
  "pixel_loop sample cf n row =
     foldl (\<lambda>row xx. store_pixel (sample xx) (cf xx) row xx) row [0..<n]"

text \<open>
  The vertical pass, one destination row: the coefficients of \<^verbatim>\<open>yy\<close>, then the
  \<^verbatim>\<open>switch\<close> on the type.  Only the 8-bit case exists, and in it only three bands have
  a body.  The taps are rows \<^verbatim>\<open>y\<close> of the source: \<^verbatim>\<open>imIn->image[y][xx*4+b]\<close>.
\<close>

definition vertical_row ::
  "fpenv \<Rightarrow> filter_s \<Rightarrow> real \<Rightarrow> real \<Rightarrow> real \<Rightarrow> Imaging \<Rightarrow> Imaging \<Rightarrow> 8 word list list \<Rightarrow> nat
     \<Rightarrow> 8 word list list" where
  "vertical_row fp filterp scale filterscale support' imOut imIn rows yy =
     (let c = coefficients fp filterp scale filterscale support' (ysize imIn) (int yy)
      in case type imIn of
           IMAGING_TYPE_UINT8 \<Rightarrow>
             if bands imIn = 4 then rows
             else if bands imIn = 3 then
               rows[yy := pixel_loop (\<lambda>xx b y. image' imIn ! nat y ! (xx * 4 + b)) (\<lambda>xx. c)
                            (nat (xsize imOut)) (rows ! yy)]
             else rows
         | _ \<Rightarrow> rows)"

text \<open>
  The horizontal pass, one destination row, with the coefficient table \<open>tab\<close> that the
  first loop has filled (\<^verbatim>\<open>intkk\<close> and \<^verbatim>\<open>xbounds\<close>, one entry for each \<^verbatim>\<open>xx\<close>).  The
  taps are pixels \<^verbatim>\<open>x\<close> of the source row: \<^verbatim>\<open>imIn->image[yy][x*4+b]\<close>.
\<close>

definition horizontal_row ::
  "coeffs list \<Rightarrow> Imaging \<Rightarrow> Imaging \<Rightarrow> 8 word list list \<Rightarrow> nat \<Rightarrow> 8 word list list" where
  "horizontal_row tab imOut imIn rows yy =
     (case type imIn of
        IMAGING_TYPE_UINT8 \<Rightarrow>
          if bands imIn = 4 then rows
          else if bands imIn = 3 then
            rows[yy := pixel_loop (\<lambda>xx b x. image' imIn ! yy ! nat (x * 4 + int b))
                         (\<lambda>xx. tab ! xx) (nat (xsize imOut)) (rows ! yy)]
          else rows
      | _ \<Rightarrow> rows)"

text \<open>
  \<open>malloc_ok n\<close> says whether the \<open>n\<close>-th allocation of the call succeeds.  The second
  component of the result is the destination after the call.  The passes below keep the
  coefficients of every destination index in a record of their own, where the code
  keeps them in \<^verbatim>\<open>kmax\<close> entries of a table: one table row reused for every \<^verbatim>\<open>yy\<close> in
  the vertical pass, the entries from \<^verbatim>\<open>xx * kmax\<close> on in the horizontal pass.  The two
  agree on the calls whose rows fit (\<open>rows_fit\<close>); a longer row would run into the entries
  of the next index or past the end of the allocation.
\<close>

definition stretch_vertical ::
  "fpenv \<Rightarrow> (nat \<Rightarrow> bool) \<Rightarrow> filter_s \<Rightarrow> real \<Rightarrow> real \<Rightarrow> real \<Rightarrow> Imaging \<Rightarrow> Imaging
     \<Rightarrow> (error + unit) \<times> Imaging option" where
  "stretch_vertical fp malloc_ok filterp scale filterscale support' imOut imIn =
     (if \<not> malloc_ok 0 then (Inl MemoryError, Some imOut)
      else if \<not> malloc_ok 1 then (Inl MemoryError, Some imOut)
      else (Inr (),
            Some (imOut\<lparr> image' :=
                    foldl (vertical_row fp filterp scale filterscale support' imOut imIn)
                      (image' imOut) [0..<nat (ysize imOut)] \<rparr>)))"

definition stretch_horizontal ::
  "fpenv \<Rightarrow> (nat \<Rightarrow> bool) \<Rightarrow> filter_s \<Rightarrow> real \<Rightarrow> real \<Rightarrow> real \<Rightarrow> Imaging \<Rightarrow> Imaging
     \<Rightarrow> (error + unit) \<times> Imaging option" where
  "stretch_horizontal fp malloc_ok filterp scale filterscale support' imOut imIn =
     (if \<not> malloc_ok 0 then (Inl MemoryError, Some imOut)
      else if \<not> malloc_ok 1 then (Inl MemoryError, Some imOut)
      else if \<not> malloc_ok 2 then (Inl NullReturn, Some imOut)
      else let tab = map (\<lambda>xx. coefficients fp filterp scale filterscale support' (xsize imIn)
                                 (int xx)) [0..<nat (xsize imOut)]
           in (Inr (),
               Some (imOut\<lparr> image' :=
                       foldl (horizontal_row tab imOut imIn) (image' imOut)
                         [0..<nat (ysize imOut)] \<rparr>)))"

subsection \<open>ImagingStretch\<close>

definition select_filter :: "fpenv \<Rightarrow> transform \<Rightarrow> filter_s option" where
  "select_filter fp f =
     (case f of
        IMAGING_TRANSFORM_NEAREST \<Rightarrow> Some NEAREST
      | IMAGING_TRANSFORM_ANTIALIAS \<Rightarrow> Some (ANTIALIAS fp)
      | IMAGING_TRANSFORM_BILINEAR \<Rightarrow> Some (BILINEAR fp)
      | IMAGING_TRANSFORM_BICUBIC \<Rightarrow> Some (BICUBIC fp)
      | IMAGING_TRANSFORM_OTHER n \<Rightarrow> None)"

text \<open>\<^verbatim>\<open>(float) in / out\<close>: both sizes become \<^verbatim>\<open>float\<close>, then one division.\<close>

definition size_ratio :: "fpenv \<Rightarrow> int \<Rightarrow> int \<Rightarrow> real" where
  "size_ratio fp insize outsize =
     fdiv fp (to_float fp (of_int insize)) (to_float fp (of_int outsize))"

text \<open>
  The values \<^verbatim>\<open>scale\<close>, \<^verbatim>\<open>filterscale\<close> and \<^verbatim>\<open>support\<close> that the prologue derives from
  the two lengths of the stretched axis.
\<close>

definition axis_setup :: "fpenv \<Rightarrow> filter_s \<Rightarrow> int \<Rightarrow> int \<Rightarrow> real \<times> real \<times> real" where
  "axis_setup fp filterp insize outsize =
     (let scale = size_ratio fp insize outsize;
          filterscale = (if scale < 1 then 1 else scale)
      in (scale, filterscale, fmul fp (support filterp) filterscale))"

text \<open>
  The choice of the axis: equal heights give the ratio of the widths, otherwise equal
  widths give the ratio of the heights, otherwise the sizes do not fit.
\<close>

definition stretch_setup ::
  "fpenv \<Rightarrow> filter_s \<Rightarrow> Imaging \<Rightarrow> Imaging \<Rightarrow> (real \<times> real \<times> real) option" where
  "stretch_setup fp filterp imOut imIn =
     (if ysize imIn = ysize imOut then Some (axis_setup fp filterp (xsize imIn) (xsize imOut))
      else if xsize imIn = xsize imOut
      then Some (axis_setup fp filterp (ysize imIn) (ysize imOut))
      else None)"

text \<open>
  The arguments are pointers: \<open>None\<close> is \<^verbatim>\<open>NULL\<close>.  The result is \<open>Inr ()\<close> when the
  function returns \<^verbatim>\<open>imOut\<close>, \<open>Inl e\<close> when it returns \<^verbatim>\<open>NULL\<close>, together with the
  destination as the call leaves it.  Source and destination are two objects.  The pass
  is chosen by the widths alone: equal widths take the vertical pass, also when the
  heights are equal too and the ratio is that of the widths.
\<close>

definition ImagingStretch ::
  "fpenv \<Rightarrow> (nat \<Rightarrow> bool) \<Rightarrow> Imaging option \<Rightarrow> Imaging option \<Rightarrow> transform
     \<Rightarrow> (error + unit) \<times> Imaging option" where
  "ImagingStretch fp malloc_ok imOut0 imIn0 f =
     (case imOut0 of
        None \<Rightarrow> (Inl ModeError, imOut0)
      | Some imOut \<Rightarrow>
          (case imIn0 of
             None \<Rightarrow> (Inl ModeError, imOut0)
           | Some imIn \<Rightarrow>
               if mode imIn \<noteq> mode imOut then (Inl ModeError, imOut0)
               else
                 (case select_filter fp f of
                    None \<Rightarrow> (Inl ValueError, imOut0)
                  | Some filterp \<Rightarrow>
                      (case stretch_setup fp filterp imOut imIn of
                         None \<Rightarrow> (Inl Mismatch, imOut0)
                       | Some (scale, filterscale, support') \<Rightarrow>
                           if xsize imIn = xsize imOut
                           then stretch_vertical fp malloc_ok filterp scale filterscale
                                  support' imOut imIn
                           else stretch_horizontal fp malloc_ok filterp scale filterscale
                                  support' imOut imIn))))"

subsection \<open>Derived notions\<close>

text \<open>
  The coefficients that a pass over an axis of length \<open>insize\<close> computes for the
  destination index \<open>i\<close> when the destination has length \<open>outsize\<close>: the prologue, then
  the body of the coefficient loop.
\<close>

definition pass_coefficients :: "fpenv \<Rightarrow> filter_s \<Rightarrow> int \<Rightarrow> int \<Rightarrow> int \<Rightarrow> coeffs" where
  "pass_coefficients fp filterp insize outsize i =
     (case axis_setup fp filterp insize outsize of
        (scale, filterscale, support') \<Rightarrow>
          coefficients fp filterp scale filterscale support' insize i)"


text \<open>
  The coefficient rows of the pass that a call takes fit their tables (or the call
  takes no pass).
\<close>

definition tables_fit :: "fpenv \<Rightarrow> transform \<Rightarrow> Imaging \<Rightarrow> Imaging \<Rightarrow> bool" where
  "tables_fit fp f imOut imIn =
     (case select_filter fp f of
        None \<Rightarrow> True
      | Some filterp \<Rightarrow>
          (case stretch_setup fp filterp imOut imIn of
             None \<Rightarrow> True
           | Some (scale, filterscale, support') \<Rightarrow>
               if xsize imIn = xsize imOut
               then rows_fit fp filterp scale filterscale support' (ysize imIn) (ysize imOut)
               else rows_fit fp filterp scale filterscale support' (xsize imIn) (xsize imOut)))"

text \<open>Images of the modes \<^verbatim>\<open>"RGB"\<close> (three bands in four bytes) and \<^verbatim>\<open>"L"\<close> (one byte).\<close>

definition rgb_image :: "int \<Rightarrow> int \<Rightarrow> 8 word list list \<Rightarrow> Imaging" where
  "rgb_image w h rows =
     \<lparr> mode = ''RGB'', type = IMAGING_TYPE_UINT8, bands = 3, xsize = w, ysize = h,
       image' = rows \<rparr>"

definition l_image :: "int \<Rightarrow> int \<Rightarrow> 8 word list list \<Rightarrow> Imaging" where
  "l_image w h rows =
     \<lparr> mode = ''L'', type = IMAGING_TYPE_UINT8, bands = 1, xsize = w, ysize = h,
       image' = rows \<rparr>"

text \<open>Every allocation succeeds.\<close>

definition malloc_succeeds :: "nat \<Rightarrow> bool" where
  "malloc_succeeds n = True"

subsection \<open>The formulas of the specification\<close>

text \<open>
  The coefficient builder as the specification words it (section 4.2), with its
  formulas read over the reals: \<open>srcLen\<close> and \<open>dstLen\<close> are the two lengths of the
  stretched axis, \<open>i\<close> the destination index and \<open>j\<close> a source index of the window.
\<close>

definition clamp :: "int \<Rightarrow> int \<Rightarrow> int \<Rightarrow> int" where
  "clamp v lo hi = max lo (min hi v)"

definition spec_scale :: "int \<Rightarrow> int \<Rightarrow> real" where
  "spec_scale srcLen dstLen = of_int srcLen / of_int dstLen"

definition spec_filterscale :: "int \<Rightarrow> int \<Rightarrow> real" where
  "spec_filterscale srcLen dstLen = max (spec_scale srcLen dstLen) 1"

definition spec_support :: "filter_s \<Rightarrow> int \<Rightarrow> int \<Rightarrow> real" where
  "spec_support kern srcLen dstLen = support kern * spec_filterscale srcLen dstLen"

definition spec_center :: "int \<Rightarrow> int \<Rightarrow> int \<Rightarrow> real" where
  "spec_center srcLen dstLen i = (of_int i + 1 / 2) * spec_scale srcLen dstLen"

definition spec_min :: "filter_s \<Rightarrow> int \<Rightarrow> int \<Rightarrow> int \<Rightarrow> int" where
  "spec_min kern srcLen dstLen i =
     clamp \<lfloor>spec_center srcLen dstLen i - spec_support kern srcLen dstLen\<rfloor> 0 srcLen"

definition spec_max :: "filter_s \<Rightarrow> int \<Rightarrow> int \<Rightarrow> int \<Rightarrow> int" where
  "spec_max kern srcLen dstLen i =
     clamp \<lceil>spec_center srcLen dstLen i + spec_support kern srcLen dstLen\<rceil> 0 srcLen"

definition spec_weight :: "filter_s \<Rightarrow> int \<Rightarrow> int \<Rightarrow> int \<Rightarrow> int \<Rightarrow> real" where
  "spec_weight kern srcLen dstLen i j =
     filter' kern
       ((of_int j - spec_center srcLen dstLen i + 1 / 2) / spec_filterscale srcLen dstLen)
       / spec_filterscale srcLen dstLen"

text \<open>
  The same steps with every operation rounded as the types of C round it: the lengths
  are cast to \<^verbatim>\<open>float\<close> and divided in \<^verbatim>\<open>float\<close>; the centre is a product in \<^verbatim>\<open>double\<close>
  stored in a \<^verbatim>\<open>float\<close>; the two bounds are a difference and a sum of two \<^verbatim>\<open>float\<close>
  values, then \<^verbatim>\<open>floor\<close> or \<^verbatim>\<open>ceil\<close> and the cast to \<^verbatim>\<open>int\<close>; the lower bound is
  clipped at 0 and the upper bound at \<open>srcLen\<close>; the argument of the kernel is
  \<open>j - center\<close> in \<^verbatim>\<open>float\<close>, then \<open>+ 0.5\<close> and the product with \<open>1 / filterscale\<close> in
  \<^verbatim>\<open>double\<close>, stored in a \<^verbatim>\<open>float\<close>; the weight is the \<^verbatim>\<open>float\<close> product of the kernel
  value and \<open>1 / filterscale\<close>, where the reciprocal is itself a \<^verbatim>\<open>float\<close>.
\<close>

definition rounded_scale :: "fpenv \<Rightarrow> int \<Rightarrow> int \<Rightarrow> real" where
  "rounded_scale fp srcLen dstLen =
     to_float fp (to_float fp (of_int srcLen) / to_float fp (of_int dstLen))"

definition rounded_filterscale :: "fpenv \<Rightarrow> int \<Rightarrow> int \<Rightarrow> real" where
  "rounded_filterscale fp srcLen dstLen = max (rounded_scale fp srcLen dstLen) 1"

definition rounded_support :: "fpenv \<Rightarrow> filter_s \<Rightarrow> int \<Rightarrow> int \<Rightarrow> real" where
  "rounded_support fp kern srcLen dstLen =
     to_float fp (support kern * rounded_filterscale fp srcLen dstLen)"

definition rounded_center :: "fpenv \<Rightarrow> int \<Rightarrow> int \<Rightarrow> int \<Rightarrow> real" where
  "rounded_center fp srcLen dstLen i =
     to_float fp
       (to_double fp (to_double fp (of_int i + 1 / 2) * rounded_scale fp srcLen dstLen))"

definition rounded_reciprocal :: "fpenv \<Rightarrow> int \<Rightarrow> int \<Rightarrow> real" where
  "rounded_reciprocal fp srcLen dstLen =
     to_float fp (to_double fp (1 / rounded_filterscale fp srcLen dstLen))"

definition rounded_min :: "fpenv \<Rightarrow> filter_s \<Rightarrow> int \<Rightarrow> int \<Rightarrow> int \<Rightarrow> int" where
  "rounded_min fp kern srcLen dstLen i =
     max (to_int fp (of_int \<lfloor>to_float fp (rounded_center fp srcLen dstLen i -
                                     rounded_support fp kern srcLen dstLen)\<rfloor>)) 0"

definition rounded_max :: "fpenv \<Rightarrow> filter_s \<Rightarrow> int \<Rightarrow> int \<Rightarrow> int \<Rightarrow> int" where
  "rounded_max fp kern srcLen dstLen i =
     min (to_int fp (of_int \<lceil>to_float fp (rounded_center fp srcLen dstLen i +
                                     rounded_support fp kern srcLen dstLen)\<rceil>)) srcLen"

definition rounded_weight :: "fpenv \<Rightarrow> filter_s \<Rightarrow> int \<Rightarrow> int \<Rightarrow> int \<Rightarrow> int \<Rightarrow> real" where
  "rounded_weight fp kern srcLen dstLen i j =
     to_float fp
       (filter' kern
          (to_float fp
             (to_double fp
                (to_double fp
                   (to_float fp (to_float fp (of_int j) - rounded_center fp srcLen dstLen i)
                    + 1 / 2)
                 * rounded_reciprocal fp srcLen dstLen)))
        * rounded_reciprocal fp srcLen dstLen)"

section \<open>Evaluation under binary32 and binary64\<close>

text \<open>
  The rounding function is unfolded on numerals only, so that the simplifier evaluates a
  closed expression from the inside and leaves an open one alone.
\<close>

lemma fl_round_minus: "fl_round p q (- x) = - fl_round p q x"
  by (simp add: fl_round_def Let_def)

lemma fl_round_0: "fl_round p q 0 = 0"
  by (simp add: fl_round_def)

lemmas fl_round_num =
  fl_round_def [of _ _ "numeral a"] fl_round_def [of _ _ "numeral a / numeral b"]
  fl_round_def [of _ _ "1"] fl_round_def [of _ _ "1 / numeral b"] for a b

lemma ieee_sel:
  "to_float ieee754 = fl_round 24 (- 149)"
  "to_double ieee754 = fl_round 53 (- 1074)"
  "int_indefinite ieee754 = - 2147483648"
  "to_int ieee754 x = (if - 2147483649 < x \<and> x < 2147483648 then trunc x else - 2147483648)"
  by (simp_all add: ieee754_def)

lemmas fp_defs = fadd_def fsub_def fmul_def fdiv_def dadd_def dsub_def dmul_def ddiv_def

text \<open>The bit length of a numeral, read off its binary digits.\<close>

lemma bitlen_Bit0: "bitlen (numeral (Num.Bit0 n)) = bitlen (numeral n) + 1"
  by (subst compute_bitlen) simp

lemma bitlen_Bit1: "bitlen (numeral (Num.Bit1 n)) = bitlen (numeral n) + 1"
  by (subst compute_bitlen) simp

lemma bitlen_One: "bitlen 1 = 1"
  by (subst compute_bitlen) simp

lemmas ieee_eval =
  ieee_sel fl_round_minus fl_round_0 fl_round_num ilog2_def rne_def pow2_def
  bitlen_Bit0 bitlen_Bit1 bitlen_One
  Let_def trunc_def ceiling_def upto_rec1 PRECISION_BITS_def push_bit_eq_mult

text \<open>
  A coefficient row, one let-binding of the definition at a time: each premise is
  evaluated once.
\<close>

lemma coefficients_staged:
  assumes "to_float fp (dmul fp (dadd fp (of_int xx) (1 / 2)) scale) = center"
    and "to_float fp (ddiv fp 1 filterscale) = ss"
    and "(if to_int fp (of_int \<lfloor>fsub fp center sp\<rfloor>) < 0 then 0
          else to_int fp (of_int \<lfloor>fsub fp center sp\<rfloor>)) = lo"
    and "(if insize < to_int fp (of_int \<lceil>fadd fp center sp\<rceil>) then insize
          else to_int fp (of_int \<lceil>fadd fp center sp\<rceil>)) = hi"
    and "map (\<lambda>x. fmul fp
                    (filter' filterp
                       (to_float fp
                          (dmul fp (dadd fp (fsub fp (to_float fp (of_int x)) center) (1 / 2)) ss)))
                    ss) [lo..hi - 1] = ws"
    and "foldl (fadd fp) 0 ws = tw"
    and "map (\<lambda>w. fdiv fp w tw) ws = ks"
    and "(if tw = 0 then map (\<lambda>w. int_indefinite fp) ws
          else map (\<lambda>k. to_int fp (fmul fp k (push_bit PRECISION_BITS 1))) ks) = ik"
  shows "coefficients fp filterp scale filterscale sp insize xx =
           \<lparr> xmin = lo, xmax = hi, raw_k = ws, ww = tw, norm_k = ks, intk = ik \<rparr>"
  unfolding coefficients_def Let_def assms by (rule refl)

section \<open>Properties of the rounding function\<close>

lemma pow2_pos [simp]: "0 < pow2 q"
  by (simp add: pow2_def)

lemma pow2_neq0 [simp]: "pow2 q \<noteq> 0"
  by (simp add: pow2_def)

lemma abs_pow2 [simp]: "\<bar>pow2 q\<bar> = pow2 q"
  by (simp add: pow2_def)

lemma pow2_powr: "pow2 q = 2 powr (of_int q)"
proof (cases "0 \<le> q")
  case True
  then show ?thesis
    by (simp add: pow2_def powr_realpow [symmetric])
next
  case False
  then have "2 powr real_of_int q = 1 / 2 powr real_of_int (- q)"
    by (simp add: powr_minus_divide)
  also have "\<dots> = 1 / 2 ^ nat (- q)"
    using False by (simp add: powr_realpow [symmetric])
  finally show ?thesis
    using False by (simp add: pow2_def)
qed



lemma rne_nearest: "\<bar>real_of_int (rne m) - m\<bar> \<le> 1 / 2"
  by (simp add: rne_def Let_def; linarith?)


text \<open>
  The rounded value is a multiple of the unit in the last place and lies within half
  a unit of the argument.
\<close>

lemma fl_round_error:
  assumes "x \<noteq> 0" and q_def: "q = max (ilog2 \<bar>x\<bar> - (int p - 1)) qmin"
  shows "\<bar>fl_round p qmin x - x\<bar> \<le> pow2 q / 2"
    and "\<exists>m. fl_round p qmin x = of_int m * pow2 q"
proof -
  let ?m = "\<bar>x\<bar> / pow2 q"
  have f: "fl_round p qmin x = sgn x * of_int (rne ?m) * pow2 q"
    using assms(1) by (simp add: fl_round_def q_def Let_def)
  have "x = sgn x * ?m * pow2 q"
    by (simp add: sgn_mult_abs)
  then have "fl_round p qmin x - x = sgn x * (of_int (rne ?m) - ?m) * pow2 q"
    unfolding f by (simp add: algebra_simps)
  then have "\<bar>fl_round p qmin x - x\<bar> = \<bar>of_int (rne ?m) - ?m\<bar> * pow2 q"
    using assms(1) by (simp add: abs_mult abs_sgn_eq)
  also have "\<dots> \<le> 1 / 2 * pow2 q"
    by (intro mult_right_mono rne_nearest) (simp add: less_imp_le)
  finally show "\<bar>fl_round p qmin x - x\<bar> \<le> pow2 q / 2"
    by simp
  have "sgn x = 1 \<or> sgn x = - 1"
    using assms(1) by (simp add: sgn_if)
  then show "\<exists>m. fl_round p qmin x = of_int m * pow2 q"
  proof
    assume "sgn x = 1"
    with f show ?thesis by (intro exI [of _ "rne ?m"]) simp
  next
    assume "sgn x = - 1"
    with f show ?thesis by (intro exI [of _ "- rne ?m"]) simp
  qed
qed


subsection \<open>Representable values\<close>

lemma pow2_less_iff [simp]: "pow2 a < pow2 b \<longleftrightarrow> a < b"
  by (simp add: pow2_powr)

lemma pow2_le_iff [simp]: "pow2 a \<le> pow2 b \<longleftrightarrow> a \<le> b"
  by (simp add: pow2_powr)









section \<open>The clip and the loops\<close>


lemma length_store_pixel [simp]: "length (store_pixel s c row xx) = length row"
  by (simp add: store_pixel_def)








lemma foldl_unchanged: "foldl (\<lambda>rows yy. rows) rows0 ys = rows0"
  by (induction ys) simp_all





text \<open>The row functions of the two passes have that shape.\<close>

lemma vertical_row_bands3:
  assumes "type imIn = IMAGING_TYPE_UINT8" "bands imIn = 3"
  shows "vertical_row fp flt sc fs sp imOut imIn =
           (\<lambda>rows yy. rows[yy :=
              pixel_loop (\<lambda>xx b y. image' imIn ! nat y ! (xx * 4 + b))
                (\<lambda>xx. coefficients fp flt sc fs sp (ysize imIn) (int yy))
                (nat (xsize imOut)) (rows ! yy)])"
  using assms by (intro ext) (simp add: vertical_row_def)

lemma vertical_row_other:
  assumes "type imIn \<noteq> IMAGING_TYPE_UINT8 \<or> bands imIn \<noteq> 3"
  shows "vertical_row fp flt sc fs sp imOut imIn = (\<lambda>rows yy. rows)"
  using assms by (intro ext) (auto simp add: vertical_row_def split: imaging_type.splits)

lemma vertical_row_shape:
  "vertical_row fp flt sc fs sp imOut imIn =
     (\<lambda>rows yy. rows[yy :=
        pixel_loop (\<lambda>xx b y. image' imIn ! nat y ! (xx * 4 + b))
          (\<lambda>xx. coefficients fp flt sc fs sp (ysize imIn) (int yy))
          (nat (xsize imOut)) (rows ! yy)]) \<or>
   vertical_row fp flt sc fs sp imOut imIn = (\<lambda>rows yy. rows)"
  using vertical_row_bands3 [of imIn fp flt sc fs sp imOut]
    vertical_row_other [of imIn fp flt sc fs sp imOut] by blast

lemma horizontal_row_bands3:
  assumes "type imIn = IMAGING_TYPE_UINT8" "bands imIn = 3"
  shows "horizontal_row tab imOut imIn =
           (\<lambda>rows yy. rows[yy :=
              pixel_loop (\<lambda>xx b x. image' imIn ! yy ! nat (x * 4 + int b)) (\<lambda>xx. tab ! xx)
                (nat (xsize imOut)) (rows ! yy)])"
  using assms by (intro ext) (simp add: horizontal_row_def)

lemma horizontal_row_other:
  assumes "type imIn \<noteq> IMAGING_TYPE_UINT8 \<or> bands imIn \<noteq> 3"
  shows "horizontal_row tab imOut imIn = (\<lambda>rows yy. rows)"
  using assms by (intro ext) (auto simp add: horizontal_row_def split: imaging_type.splits)

lemma horizontal_row_shape:
  "horizontal_row tab imOut imIn =
     (\<lambda>rows yy. rows[yy :=
        pixel_loop (\<lambda>xx b x. image' imIn ! yy ! nat (x * 4 + int b)) (\<lambda>xx. tab ! xx)
          (nat (xsize imOut)) (rows ! yy)]) \<or>
   horizontal_row tab imOut imIn = (\<lambda>rows yy. rows)"
  using horizontal_row_bands3 [of imIn tab imOut] horizontal_row_other [of imIn tab imOut]
  by blast

subsection \<open>The accumulator in 32 bits\<close>

lemma wrap_int_add_right: "wrap_int (a + wrap_int b) = wrap_int (a + b)"
proof -
  have "a + ((b + 2147483648) mod 4294967296 - 2147483648) + 2147483648 =
          a + (b + 2147483648) mod 4294967296"
    by simp
  then show ?thesis
    unfolding wrap_int_def by (simp only: mod_add_right_eq add.assoc)
qed

lemma wrap_int_add_left: "wrap_int (wrap_int a + b) = wrap_int (a + b)"
  using wrap_int_add_right [of b a] by (simp only: add.commute)

lemma wrap_int_id:
  assumes "- 2147483648 \<le> v" "v < 2147483648"
  shows "wrap_int v = v"
  using assms by (simp add: wrap_int_def)

lemma wrap_int_range: "- 2147483648 \<le> wrap_int v \<and> wrap_int v < 2147483648"
proof -
  have "0 \<le> (v + 2147483648) mod 4294967296" "(v + 2147483648) mod 4294967296 < 4294967296"
    by simp_all
  then show ?thesis
    unfolding wrap_int_def by linarith
qed

lemma foldl_wrap:
  "foldl (\<lambda>acc x. wrap_int (acc + wrap_int (f x))) (wrap_int a) xs =
     wrap_int (a + sum_list (map f xs))"
proof (induction xs arbitrary: a)
  case Nil
  then show ?case by simp
next
  case (Cons x xs)
  have "wrap_int (wrap_int a + wrap_int (f x)) = wrap_int (a + f x)"
    by (simp only: wrap_int_add_right wrap_int_add_left)
  with Cons.IH [of "a + f x"] show ?case
    by (simp add: add.assoc)
qed

text \<open>The accumulator is the sum of the rounding bias and the products, in 32 bits.\<close>

lemma accumulate_sum:
  "accumulate sample c =
     wrap_int
       (2 ^ 21 + (\<Sum>x\<leftarrow>[xmin c..xmax c - 1]. uint (sample x) * intk c ! nat (x - xmin c)))"
proof -
  have "wrap_int 2097152 = 2097152"
    by (simp add: wrap_int_def)
  with foldl_wrap [of "\<lambda>x. uint (sample x) * intk c ! nat (x - xmin c)" 2097152
      "[xmin c..xmax c - 1]"]
  show ?thesis
    by (simp add: accumulate_def PRECISION_BITS_def push_bit_eq_mult)
qed

lemma taps_of_window:
  assumes "length ks = nat (hi - lo)"
  shows "map (\<lambda>x. ks ! nat (x - lo)) [lo..hi - 1] = ks"
  using assms by (intro nth_equalityI) simp_all

lemma length_intk_coefficients:
  "length (intk (coefficients fp filterp scale filterscale sp insize xx)) =
     nat (xmax (coefficients fp filterp scale filterscale sp insize xx) -
          xmin (coefficients fp filterp scale filterscale sp insize xx))"
  by (simp add: coefficients_def Let_def)

lemma sum_list_abs_bound:
  fixes f g :: "'a \<Rightarrow> int"
  assumes "\<And>x. \<bar>f x\<bar> \<le> g x"
  shows "\<bar>sum_list (map f xs)\<bar> \<le> sum_list (map g xs)"
proof (induction xs)
  case Nil
  then show ?case by simp
next
  case (Cons x xs)
  with assms [of x] show ?case by simp
qed

lemma products_bound:
  fixes sample :: "int \<Rightarrow> 8 word"
  assumes "length (intk c) = nat (xmax c - xmin c)"
  shows "\<bar>\<Sum>x\<leftarrow>[xmin c..xmax c - 1]. uint (sample x) * intk c ! nat (x - xmin c)\<bar>
           \<le> 255 * (\<Sum>k\<leftarrow>intk c. \<bar>k\<bar>)"
proof -
  have byte: "\<bar>uint (sample x) * intk c ! nat (x - xmin c)\<bar> \<le> 255 * \<bar>intk c ! nat (x - xmin c)\<bar>"
    for x
  proof -
    have "uint (sample x) < 2 ^ 8"
      using uint_lt2p [of "sample x"] by simp
    then have "\<bar>uint (sample x)\<bar> \<le> 255"
      by simp
    then show ?thesis
      by (simp add: abs_mult mult_right_mono)
  qed
  have "\<bar>\<Sum>x\<leftarrow>[xmin c..xmax c - 1]. uint (sample x) * intk c ! nat (x - xmin c)\<bar>
          \<le> (\<Sum>x\<leftarrow>[xmin c..xmax c - 1]. 255 * \<bar>intk c ! nat (x - xmin c)\<bar>)"
    by (rule sum_list_abs_bound) (rule byte)
  also have "\<dots> = 255 * (\<Sum>k\<leftarrow>map (\<lambda>x. intk c ! nat (x - xmin c)) [xmin c..xmax c - 1]. \<bar>k\<bar>)"
    by (simp add: sum_list_const_mult comp_def)
  also have "\<dots> = 255 * (\<Sum>k\<leftarrow>intk c. \<bar>k\<bar>)"
    by (simp only: taps_of_window [OF assms])
  finally show ?thesis .
qed

text \<open>
  The two guard bits: as long as the absolute values of the integer weights of a row
  sum to less than \<open>2\<^sup>2\<^sup>3\<close>, twice the unit, no accumulator of the row leaves the range
  of \<^verbatim>\<open>int\<close>, and it is the sum of the bias and the products.
\<close>

lemma accumulate_fits_int:
  assumes "(\<Sum>k\<leftarrow>intk c. \<bar>k\<bar>) < 2 ^ 23"
    and "c = coefficients fp filterp scale filterscale sp insize xx"
  shows "accumulate sample c =
           2 ^ 21 + (\<Sum>x\<leftarrow>[xmin c..xmax c - 1]. uint (sample x) * intk c ! nat (x - xmin c))"
proof -
  let ?p = "\<Sum>x\<leftarrow>[xmin c..xmax c - 1]. uint (sample x) * intk c ! nat (x - xmin c)"
  have "length (intk c) = nat (xmax c - xmin c)"
    unfolding assms(2) by (rule length_intk_coefficients)
  from products_bound [OF this, of sample]
  have "\<bar>?p\<bar> \<le> 255 * (\<Sum>k\<leftarrow>intk c. \<bar>k\<bar>)" .
  moreover have "255 * (\<Sum>k\<leftarrow>intk c. \<bar>k\<bar>) < 255 * 2 ^ 23"
    using assms(1) by simp
  ultimately have "\<bar>?p\<bar> < 255 * 2 ^ 23"
    by linarith
  then have "- 2147483648 \<le> 2 ^ 21 + ?p" "2 ^ 21 + ?p < 2147483648"
    by (simp_all add: abs_less_iff)
  then have "wrap_int (2 ^ 21 + ?p) = 2 ^ 21 + ?p"
    by (rule wrap_int_id)
  then show ?thesis
    by (simp only: accumulate_sum)
qed


section \<open>The results of a call\<close>

lemma stretch_result_cases:
  assumes "ImagingStretch fp malloc_ok (Some imOut) (Some imIn) f = (r, d)"
  obtains (failed) "r \<noteq> Inr ()" "d = Some imOut"
  | (vertical) flt sc fs sp where "r = Inr ()" "mode imIn = mode imOut"
      "select_filter fp f = Some flt" "stretch_setup fp flt imOut imIn = Some (sc, fs, sp)"
      "xsize imIn = xsize imOut"
      "d = Some (imOut\<lparr> image' := foldl (vertical_row fp flt sc fs sp imOut imIn)
                                      (image' imOut) [0..<nat (ysize imOut)] \<rparr>)"
  | (horizontal) flt sc fs sp where "r = Inr ()" "mode imIn = mode imOut"
      "select_filter fp f = Some flt" "stretch_setup fp flt imOut imIn = Some (sc, fs, sp)"
      "xsize imIn \<noteq> xsize imOut"
      "d = Some (imOut\<lparr> image' :=
                   foldl (horizontal_row
                            (map (\<lambda>xx. coefficients fp flt sc fs sp (xsize imIn) (int xx))
                               [0..<nat (xsize imOut)]) imOut imIn)
                     (image' imOut) [0..<nat (ysize imOut)] \<rparr>)"
  using assms
  by (auto simp add: ImagingStretch_def stretch_vertical_def stretch_horizontal_def Let_def
      split: option.splits if_splits prod.splits)

lemma stretch_result_pass:
  assumes "ImagingStretch fp malloc_ok (Some imOut) (Some imIn) f = (r, d)"
  obtains (failed) "r \<noteq> Inr ()" "d = Some imOut"
  | (passed) g smp cf where "r = Inr ()"
      "d = Some (imOut\<lparr> image' := foldl g (image' imOut) [0..<nat (ysize imOut)] \<rparr>)"
      "g = (\<lambda>rows yy. rows[yy := pixel_loop (smp yy) (cf yy) (nat (xsize imOut)) (rows ! yy)]) \<or>
       g = (\<lambda>rows yy. rows)"
      "type imIn \<noteq> IMAGING_TYPE_UINT8 \<or> bands imIn \<noteq> 3 \<Longrightarrow> g = (\<lambda>rows yy. rows)"
  using assms
proof (cases rule: stretch_result_cases)
  case failed
  then show ?thesis by (rule that(1))
next
  case (vertical flt sc fs sp)
  show ?thesis
    by (rule that(2) [OF vertical(1) vertical(6) vertical_row_shape vertical_row_other])
next
  case (horizontal flt sc fs sp)
  show ?thesis
    by (rule that(2) [OF horizontal(1) horizontal(6) horizontal_row_shape horizontal_row_other])
qed

lemma stretch_accepted:
  assumes "mode imIn = mode imOut" "select_filter fp f = Some flt"
    and "ysize imIn = ysize imOut \<or> xsize imIn = xsize imOut"
    and "malloc_ok 0" "malloc_ok 1" "malloc_ok 2"
  shows "fst (ImagingStretch fp malloc_ok (Some imOut) (Some imIn) f) = Inr ()"
  using assms
  by (auto simp add: ImagingStretch_def stretch_vertical_def stretch_horizontal_def Let_def
      stretch_setup_def split: option.splits if_splits prod.splits)

lemma stretch_untouched:
  assumes "type imIn \<noteq> IMAGING_TYPE_UINT8 \<or> bands imIn \<noteq> 3"
    and "mode imIn = mode imOut" "select_filter fp f = Some flt"
    and "ysize imIn = ysize imOut \<or> xsize imIn = xsize imOut"
    and "malloc_ok 0" "malloc_ok 1" "malloc_ok 2"
  shows "ImagingStretch fp malloc_ok (Some imOut) (Some imIn) f = (Inr (), Some imOut)"
proof -
  obtain r d where rd: "ImagingStretch fp malloc_ok (Some imOut) (Some imIn) f = (r, d)"
    by (cases "ImagingStretch fp malloc_ok (Some imOut) (Some imIn) f")
  have r: "r = Inr ()"
    using stretch_accepted [OF assms(2-7)] rd by simp
  from rd have "d = Some imOut"
  proof (cases rule: stretch_result_pass)
    case failed
    then show ?thesis by simp
  next
    case (passed g smp cf)
    from passed(4) [OF assms(1)] passed(2) show ?thesis
      by (simp add: foldl_unchanged)
  qed
  with r rd show ?thesis by simp
qed


section \<open>Coefficient rows under binary32\<close>

text \<open>
  The prologue and the coefficient rows of the stretches evaluated below.  First a
  1-to-1 stretch with the box kernel, a 2-to-2 stretch with the bicubic kernel and a
  4-to-2 stretch with the triangle kernel.
\<close>

lemma nearest_setup: "axis_setup ieee754 NEAREST 1 1 = (1, 1, 1 / 2)"
  by (simp add: axis_setup_def size_ratio_def NEAREST_def fp_defs ieee_eval)

lemma nearest_row:
  "coefficients ieee754 NEAREST 1 1 (1 / 2) 1 0 =
     \<lparr> xmin = 0, xmax = 1, raw_k = [1], ww = 1, norm_k = [1], intk = [4194304] \<rparr>"
  by (rule coefficients_staged [where center = "1 / 2" and ss = 1])
    (simp_all add: NEAREST_def nearest_filter_def fp_defs ieee_eval)

lemma bicubic_setup: "axis_setup ieee754 (BICUBIC ieee754) 1 1 = (1, 1, 2)"
  by (simp add: axis_setup_def size_ratio_def BICUBIC_def fp_defs ieee_eval)

lemma bicubic_row0:
  "coefficients ieee754 (BICUBIC ieee754) 1 1 2 2 0 =
     \<lparr> xmin = 0, xmax = 2, raw_k = [1, 8], ww = 9,
       norm_k = [14913081 / 134217728, 14913081 / 16777216], intk = [466033, 3728270] \<rparr>"
  by (rule coefficients_staged [where center = "1 / 2" and ss = 1])
    (simp_all add: BICUBIC_def bicubic_filter_def fp_defs ieee_eval)

lemma bicubic_row1:
  "coefficients ieee754 (BICUBIC ieee754) 1 1 2 2 1 =
     \<lparr> xmin = 0, xmax = 2, raw_k = [8, 1], ww = 9,
       norm_k = [14913081 / 16777216, 14913081 / 134217728], intk = [3728270, 466033] \<rparr>"
  by (rule coefficients_staged [where center = "3 / 2" and ss = 1])
    (simp_all add: BICUBIC_def bicubic_filter_def fp_defs ieee_eval)

lemma bilinear_setup: "axis_setup ieee754 (BILINEAR ieee754) 4 2 = (2, 2, 2)"
  by (simp add: axis_setup_def size_ratio_def BILINEAR_def fp_defs ieee_eval)

lemma bilinear_row0:
  "coefficients ieee754 (BILINEAR ieee754) 2 2 2 4 0 =
     \<lparr> xmin = 0, xmax = 3, raw_k = [3 / 8, 3 / 8, 1 / 8], ww = 7 / 8,
       norm_k = [14380471 / 33554432, 14380471 / 33554432, 9586981 / 67108864],
       intk = [1797558, 1797558, 599186] \<rparr>"
  by (rule coefficients_staged [where center = 1 and ss = "1 / 2"])
    (simp_all add: BILINEAR_def bilinear_filter_def fp_defs ieee_eval)

lemma bilinear_row1:
  "coefficients ieee754 (BILINEAR ieee754) 2 2 2 4 1 =
     \<lparr> xmin = 1, xmax = 4, raw_k = [1 / 8, 3 / 8, 3 / 8], ww = 7 / 8,
       norm_k = [9586981 / 67108864, 14380471 / 33554432, 14380471 / 33554432],
       intk = [599186, 1797558, 1797558] \<rparr>"
  by (rule coefficients_staged [where center = 3 and ss = "1 / 2"])
    (simp_all add: BILINEAR_def bilinear_filter_def fp_defs ieee_eval)



text \<open>The row 0 of a stretch from the length 1 to the length \<open>2\<^sup>2\<^sup>6\<close> with the box kernel.\<close>

lemma nearest_huge_setup:
  "axis_setup ieee754 NEAREST 1 67108864 = (1 / 67108864, 1, 1 / 2)"
  by (simp add: axis_setup_def size_ratio_def NEAREST_def fp_defs ieee_eval)

lemma nearest_huge_row:
  "coefficients ieee754 NEAREST (1 / 67108864) 1 (1 / 2) 1 0 =
     \<lparr> xmin = 0, xmax = 1, raw_k = [0], ww = 0, norm_k = [0], intk = [- 2147483648] \<rparr>"
  by (rule coefficients_staged [where center = "1 / 134217728" and ss = 1])
    (simp_all add: NEAREST_def nearest_filter_def fp_defs ieee_eval)

text \<open>The last row of a stretch from \<open>2\<^sup>2\<^sup>4 + 3\<close> to the same length with the box kernel.\<close>

lemma nearest_long_setup:
  "axis_setup ieee754 NEAREST 16777219 16777219 = (1, 1, 1 / 2)"
  by (simp add: axis_setup_def size_ratio_def NEAREST_def fp_defs ieee_eval)

lemma nearest_long_row:
  "coefficients ieee754 NEAREST 1 1 (1 / 2) 16777219 16777218 =
     \<lparr> xmin = 16777218, xmax = 16777218, raw_k = [], ww = 0, norm_k = [], intk = [] \<rparr>"
  by (rule coefficients_staged [where center = 16777218 and ss = 1])
    (simp_all add: NEAREST_def nearest_filter_def fp_defs ieee_eval)

text \<open>The row of the index 3 of a stretch from the length 11 to the length 6 with the box kernel.\<close>

lemma nearest_odd_setup:
  "axis_setup ieee754 NEAREST 11 6 =
     (15379115 / 8388608, 15379115 / 8388608, 15379115 / 16777216)"
  by (simp add: axis_setup_def size_ratio_def NEAREST_def fp_defs ieee_eval)

lemma nearest_odd_row:
  "coefficients ieee754 NEAREST (15379115 / 8388608) (15379115 / 8388608)
     (15379115 / 16777216) 11 3 =
     \<lparr> xmin = 5, xmax = 8, raw_k = [0, 9151209 / 16777216, 0], ww = 9151209 / 16777216,
       norm_k = [0, 1, 0], intk = [0, 4194304, 0] \<rparr>"
  by (rule coefficients_staged [where center = "6728363 / 1048576"
        and ss = "9151209 / 16777216"])
    (simp_all add: NEAREST_def nearest_filter_def fp_defs ieee_eval)

subsection \<open>Rows and tables\<close>



lemma kmax_binary32: "kmax ieee754 (1 / 2) = 3" "kmax ieee754 1 = 3"
  by (simp_all add: kmax_def ieee_eval)

text \<open>
  A row that does not fit.  In a stretch from \<open>2\<^sup>2\<^sup>4 + 4\<close> to the same length with the
  triangle kernel the centre of the index \<open>2\<^sup>2\<^sup>4 + 1\<close> rounds to \<open>2\<^sup>2\<^sup>4 + 2\<close>, the lower
  bound \<open>center - 1\<close> rounds down to \<open>2\<^sup>2\<^sup>4\<close> and the upper bound \<open>center + 1\<close> rounds up
  to \<open>2\<^sup>2\<^sup>4 + 4\<close>: the window has four entries, the table has three for each index.
\<close>

lemma bilinear_unit_setup: "axis_setup ieee754 (BILINEAR ieee754) 1 1 = (1, 1, 1)"
  by (simp add: axis_setup_def size_ratio_def BILINEAR_def fp_defs ieee_eval)

lemma bilinear_long_row:
  "coefficients ieee754 (BILINEAR ieee754) 1 1 1 16777220 16777217 =
     \<lparr> xmin = 16777216, xmax = 16777220, raw_k = [0, 0, 1 / 2, 0], ww = 1 / 2,
       norm_k = [0, 0, 1, 0], intk = [0, 0, 4194304, 0] \<rparr>"
  by (rule coefficients_staged [where center = 16777218 and ss = 1])
    (simp_all add: BILINEAR_def bilinear_filter_def fp_defs ieee_eval)

lemma bilinear_row_exceeds_table:
  "\<not> rows_fit ieee754 (BILINEAR ieee754) 1 1 1 16777220 16777220"
proof -
  have "(16777217 :: nat) \<in> set [0..<nat 16777220]"
    by simp
  moreover have "\<not> (let c = coefficients ieee754 (BILINEAR ieee754) 1 1 1 16777220 (int 16777217)
                  in xmax c - xmin c \<le> kmax ieee754 1)"
    by (simp add: bilinear_long_row kmax_binary32)
  ultimately show ?thesis
    unfolding rows_fit_def list_all_iff by blast
qed

lemma bilinear_table_overrun:
  "\<not> tables_fit ieee754 IMAGING_TRANSFORM_BILINEAR
       (rgb_image 1 16777220 rows) (rgb_image 1 16777220 rows')"
  using bilinear_row_exceeds_table
  by (simp add: tables_fit_def select_filter_def stretch_setup_def rgb_image_def
      bilinear_unit_setup)

section \<open>Truncation\<close>

lemma trunc_of_int [simp]: "trunc (of_int n) = n"
  by (simp add: trunc_def)



lemmas stretch_eval =
  ImagingStretch_def select_filter_def stretch_setup_def stretch_vertical_def
  stretch_horizontal_def vertical_row_def horizontal_row_def pixel_loop_def store_pixel_def
  accumulate_def wrap_int_def clip8_def rgb_image_def l_image_def malloc_succeeds_def PRECISION_BITS_def
  push_bit_eq_mult drop_bit_eq_div upt_conv_Cons upto_rec1 Let_def

section \<open>The claims\<close>

subsection \<open>The bicubic kernel\<close>

text \<open>
  C1.  The bicubic kernel with \<open>a = 0\<close> is claimed to return \<open>(a+2)|x|\<^sup>3 - (a+3)x\<^sup>2 + 1\<close>
  for \<open>|x| < 1\<close>, the cubic \<open>a|x|\<^sup>3 - 5a x\<^sup>2 + 8a|x| - 4a\<close>, which is 0, for
  \<open>1 \<le> |x| < 2\<close>, and 0 otherwise.  At the offset \<open>x = 1.5\<close> the code returns 12: the
  second branch computes \<open>8 * x\<close>, the factor \<open>a\<close> of the term \<open>8a|x|\<close> is missing in
  the source.
\<close>

theorem bicubic_filter_at_three_halves: "bicubic_filter ieee754 (3 / 2) = 12"
  by (simp add: bicubic_filter_def fp_defs ieee_eval)

subsection \<open>The coefficient builder\<close>

text \<open>
  The builder claimed: for every source length \<open>srcLen \<ge> 1\<close>, destination length
  \<open>dstLen \<ge> 1\<close>, kernel and destination index \<open>i\<close> of \<open>[0, dstLen)\<close>, the centre is
  \<open>(i + 0.5) * (srcLen / dstLen)\<close>, the window runs from
  \<open>clamp(floor(center - support), 0, srcLen)\<close> to \<open>clamp(ceil(center + support), 0, srcLen)\<close>
  with \<open>support = kernel.support * max(srcLen / dstLen, 1)\<close>, and the raw weight of the
  source index \<open>j\<close> is \<open>kernel((j - center + 0.5) / filterscale) / filterscale\<close>.  The
  program computes these in \<^verbatim>\<open>float\<close>, and the rounded values leave the formulas.  In a
  stretch from 11 to 6 with the box kernel the window of the index 3 is \<open>[5, 8)\<close> for
  both; the offset of the source index 5 is \<open>-1/2\<close> in the formula, where the box is 1,
  and \<open>-8388611/16777216\<close> in the program, just below, where the box is 0; the offset of
  the index 7 is above \<open>1/2\<close> in both.  The formula gives the weights 6/11, 6/11, 0, the
  program 0, 9151209/16777216, 0.
\<close>

theorem box_weights_leave_formula:
  "xmin (pass_coefficients ieee754 NEAREST 11 6 3) = spec_min NEAREST 11 6 3 \<and>
   xmax (pass_coefficients ieee754 NEAREST 11 6 3) = spec_max NEAREST 11 6 3 \<and>
   raw_k (pass_coefficients ieee754 NEAREST 11 6 3) = [0, 9151209 / 16777216, 0] \<and>
   map (spec_weight NEAREST 11 6 3) [spec_min NEAREST 11 6 3..spec_max NEAREST 11 6 3 - 1] =
     [6 / 11, 6 / 11, 0] \<and>
   raw_k (pass_coefficients ieee754 NEAREST 11 6 3) \<noteq>
     map (spec_weight NEAREST 11 6 3) [spec_min NEAREST 11 6 3..spec_max NEAREST 11 6 3 - 1]"
proof -
  have c: "pass_coefficients ieee754 NEAREST 11 6 3 =
      \<lparr> xmin = 5, xmax = 8, raw_k = [0, 9151209 / 16777216, 0], ww = 9151209 / 16777216,
        norm_k = [0, 1, 0], intk = [0, 4194304, 0] \<rparr>"
    by (simp add: pass_coefficients_def nearest_odd_setup nearest_odd_row)
  have m: "spec_min NEAREST 11 6 3 = 5" "spec_max NEAREST 11 6 3 = 8"
    by (simp_all add: spec_min_def spec_max_def spec_center_def spec_support_def
        spec_filterscale_def spec_scale_def clamp_def NEAREST_def)
  have w: "map (spec_weight NEAREST 11 6 3) [5..8 - 1] = [6 / 11, 6 / 11, 0]"
    by (simp add: spec_weight_def spec_center_def spec_filterscale_def spec_scale_def
        NEAREST_def nearest_filter_def upto_rec1)
  show ?thesis
    by (simp only: c m w coeffs.simps) simp
qed

text \<open>
  C2, as the code has it.  For every source length, destination length, kernel and
  destination index, the coefficient builder computes the steps above in the
  arithmetic of the program, each operation rounded where its C type rounds it:
  \<open>scale\<close> is the \<^verbatim>\<open>float\<close> quotient of the two lengths cast to \<^verbatim>\<open>float\<close>, \<open>filterscale\<close>
  is \<open>max(scale, 1)\<close>, \<open>support\<close> is the \<^verbatim>\<open>float\<close> product \<open>kernel.support * filterscale\<close>,
  \<open>center\<close> is \<open>(i + 0.5) * scale\<close> computed in \<^verbatim>\<open>double\<close> and stored in a \<^verbatim>\<open>float\<close>;
  the window runs from \<open>max(floor(center - support), 0)\<close> to
  \<open>min(ceil(center + support), srcLen)\<close>, with the difference and the sum rounded to
  \<^verbatim>\<open>float\<close>, so that the window lies within \<open>[0, srcLen]\<close>; and the raw weights of the
  source indices \<open>j\<close> of the window, in their order,
  are \<open>kernel((j - center + 0.5) * ss) * ss\<close>, where \<open>ss\<close> is the reciprocal of
  \<open>filterscale\<close> rounded to \<^verbatim>\<open>float\<close>, the argument of the kernel is rounded to \<^verbatim>\<open>float\<close>
  and so is the product.  The statement holds for every arithmetic environment, the
  one of the program, \<open>ieee754\<close>, among them.
\<close>

theorem coefficients_follow_rounded_formulas:
  "xmin (pass_coefficients fp kern srcLen dstLen i) = rounded_min fp kern srcLen dstLen i \<and>
   xmax (pass_coefficients fp kern srcLen dstLen i) = rounded_max fp kern srcLen dstLen i \<and>
   raw_k (pass_coefficients fp kern srcLen dstLen i) =
     map (rounded_weight fp kern srcLen dstLen i)
       [rounded_min fp kern srcLen dstLen i..rounded_max fp kern srcLen dstLen i - 1] \<and>
   0 \<le> xmin (pass_coefficients fp kern srcLen dstLen i) \<and>
   xmax (pass_coefficients fp kern srcLen dstLen i) \<le> srcLen"
proof -
  have fs: "(if rounded_scale fp srcLen dstLen < 1 then 1 else rounded_scale fp srcLen dstLen) =
              rounded_filterscale fp srcLen dstLen"
    by (simp add: rounded_filterscale_def max_def)
  have su: "axis_setup fp kern srcLen dstLen =
      (rounded_scale fp srcLen dstLen, rounded_filterscale fp srcLen dstLen,
       rounded_support fp kern srcLen dstLen)"
    by (simp add: axis_setup_def size_ratio_def Let_def fp_defs rounded_support_def fs
        rounded_scale_def [symmetric])
  let ?c = "coefficients fp kern (rounded_scale fp srcLen dstLen)
              (rounded_filterscale fp srcLen dstLen) (rounded_support fp kern srcLen dstLen)
              srcLen i"
  have lo: "xmin ?c = rounded_min fp kern srcLen dstLen i"
    by (simp add: coefficients_def Let_def fp_defs rounded_min_def rounded_center_def max_def)
  have hi: "xmax ?c = rounded_max fp kern srcLen dstLen i"
    by (simp add: coefficients_def Let_def fp_defs rounded_max_def rounded_center_def min_def)
  have "raw_k ?c = map (rounded_weight fp kern srcLen dstLen i) [xmin ?c..xmax ?c - 1]"
    by (simp add: coefficients_def Let_def fp_defs rounded_weight_def rounded_center_def
        rounded_reciprocal_def)
  moreover have "0 \<le> rounded_min fp kern srcLen dstLen i"
    "rounded_max fp kern srcLen dstLen i \<le> srcLen"
    by (simp_all add: rounded_min_def rounded_max_def)
  ultimately show ?thesis
    using lo hi by (simp add: pass_coefficients_def su)
qed

theorem coefficients_follow_rounded_formulas_witness:
  "rounded_min ieee754 NEAREST 11 6 3 = 5 \<and> rounded_max ieee754 NEAREST 11 6 3 = 8 \<and>
   map (rounded_weight ieee754 NEAREST 11 6 3) [5..8 - 1] = [0, 9151209 / 16777216, 0]"
proof -
  have c: "pass_coefficients ieee754 NEAREST 11 6 3 =
      \<lparr> xmin = 5, xmax = 8, raw_k = [0, 9151209 / 16777216, 0], ww = 9151209 / 16777216,
        norm_k = [0, 1, 0], intk = [0, 4194304, 0] \<rparr>"
    by (simp add: pass_coefficients_def nearest_odd_setup nearest_odd_row)
  from coefficients_follow_rounded_formulas [of ieee754 NEAREST 11 6 3]
  have "rounded_min ieee754 NEAREST 11 6 3 = 5" "rounded_max ieee754 NEAREST 11 6 3 = 8"
    "map (rounded_weight ieee754 NEAREST 11 6 3)
       [rounded_min ieee754 NEAREST 11 6 3..rounded_max ieee754 NEAREST 11 6 3 - 1] =
     [0, 9151209 / 16777216, 0]"
    by (simp_all only: c coeffs.simps)
  then show ?thesis
    by simp
qed

subsection \<open>The single-band scenario\<close>subsection \<open>The single-band scenario\<close>

text \<open>
  With three bands the samples 0, 85, 170, 255 stretched to width 2 by the triangle
  kernel give 61 and 194: the kernel is widened to twice its support, so each window has
  three taps with the weights 3/7, 3/7, 1/7.
\<close>

lemma bilinear_three_band_scenario:
  "ImagingStretch ieee754 malloc_succeeds (Some (rgb_image 2 1 [[0, 0, 0, 0, 0, 0, 0, 0]]))
     (Some (rgb_image 4 1 [[0, 0, 0, 0, 85, 85, 85, 0, 170, 170, 170, 0, 255, 255, 255, 0]]))
     IMAGING_TRANSFORM_BILINEAR =
   (Inr (), Some (rgb_image 2 1 [[61, 61, 61, 0, 194, 194, 194, 0]]))"
  by (simp add: stretch_eval bilinear_setup bilinear_row0 bilinear_row1)

text \<open>
  C3.  A single-row, single-band 8-bit image with the samples 0, 85, 170, 255 stretched
  horizontally to width 2 with the bilinear filter is claimed to succeed and to write
  42 or 43, then 212 or 213.  The call succeeds and writes nothing: on a destination
  that holds 0, 0 it returns the destination still holding 0, 0.  In the 8-bit case
  only the three-band branch has a body; the branch for one and two bands is empty.
\<close>

theorem single_band_not_convolved:
  "ImagingStretch ieee754 malloc_succeeds (Some (l_image 2 1 [[0, 0]]))
     (Some (l_image 4 1 [[0, 85, 170, 255]])) IMAGING_TRANSFORM_BILINEAR =
   (Inr (), Some (l_image 2 1 [[0, 0]]))"
  by (rule stretch_untouched [where flt = "BILINEAR ieee754"])
    (simp_all add: l_image_def select_filter_def malloc_succeeds_def)

subsection \<open>The choice of the axis\<close>

text \<open>
  The request claimed invalid: source and destination of the same width and the same
  height.  The call is accepted; with the box kernel it copies the pixel.
\<close>

theorem both_axes_equal_accepted:
  "ImagingStretch ieee754 malloc_succeeds (Some (rgb_image 1 1 [[0, 0, 0, 0]]))
     (Some (rgb_image 1 1 [[10, 20, 30, 0]])) IMAGING_TRANSFORM_NEAREST =
   (Inr (), Some (rgb_image 1 1 [[10, 20, 30, 0]]))"
  by (simp add: stretch_eval nearest_setup nearest_row)

text \<open>
  C4, as the code has it.  For every source and destination of the same mode and every
  supported filter, the call is rejected with the mismatch error exactly when neither
  the widths nor the heights are equal, and then at once, with the destination as it
  was.  When both are equal the request is accepted like one with a single equal axis:
  the vertical pass runs, with the ratio of the two equal widths.  An accepted request
  returns the destination when its allocations succeed.
\<close>

theorem mismatch_iff_neither_axis:
  assumes "mode imIn = mode imOut" "select_filter fp f = Some flt"
  shows "(xsize imIn \<noteq> xsize imOut \<and> ysize imIn \<noteq> ysize imOut \<longrightarrow>
            ImagingStretch fp malloc_ok (Some imOut) (Some imIn) f = (Inl Mismatch, Some imOut)) \<and>
         (xsize imIn = xsize imOut \<or> ysize imIn = ysize imOut \<longrightarrow>
            fst (ImagingStretch fp malloc_ok (Some imOut) (Some imIn) f) \<noteq> Inl Mismatch) \<and>
         (xsize imIn = xsize imOut \<and> ysize imIn = ysize imOut \<longrightarrow>
            ImagingStretch fp malloc_ok (Some imOut) (Some imIn) f =
              (case axis_setup fp flt (xsize imIn) (xsize imOut) of
                 (scale, filterscale, support') \<Rightarrow>
                   stretch_vertical fp malloc_ok flt scale filterscale support' imOut imIn)) \<and>
         ((xsize imIn = xsize imOut \<or> ysize imIn = ysize imOut) \<and>
          malloc_ok 0 \<and> malloc_ok 1 \<and> malloc_ok 2 \<longrightarrow>
            fst (ImagingStretch fp malloc_ok (Some imOut) (Some imIn) f) = Inr ())"
  using assms
  by (auto simp add: ImagingStretch_def stretch_vertical_def stretch_horizontal_def Let_def
      stretch_setup_def split: option.splits if_splits prod.splits)

theorem mismatch_iff_neither_axis_witness:
  "ImagingStretch ieee754 malloc_succeeds
     (Some (rgb_image 3 3 (replicate 3 (replicate 12 0))))
     (Some (rgb_image 2 2 (replicate 2 (replicate 8 0)))) IMAGING_TRANSFORM_NEAREST =
   (Inl Mismatch, Some (rgb_image 3 3 (replicate 3 (replicate 12 0)))) \<and>
   fst (ImagingStretch ieee754 malloc_succeeds
     (Some (rgb_image 3 2 (replicate 2 (replicate 12 0))))
     (Some (rgb_image 2 2 (replicate 2 (replicate 8 0)))) IMAGING_TRANSFORM_NEAREST) = Inr ()"
proof -
  have sel: "select_filter ieee754 IMAGING_TRANSFORM_NEAREST = Some NEAREST"
    by (simp add: select_filter_def)
  show ?thesis
    using
      mismatch_iff_neither_axis [where imIn = "rgb_image 2 2 (replicate 2 (replicate 8 0))"
        and imOut = "rgb_image 3 3 (replicate 3 (replicate 12 0))"
        and malloc_ok = malloc_succeeds, OF _ sel]
      mismatch_iff_neither_axis [where imIn = "rgb_image 2 2 (replicate 2 (replicate 8 0))"
        and imOut = "rgb_image 3 2 (replicate 2 (replicate 12 0))"
        and malloc_ok = malloc_succeeds, OF _ sel]
    by (simp add: rgb_image_def malloc_succeeds_def)
qed

subsection \<open>Saturation\<close>

text \<open>
  Two rows of integer weights.  With the weights \<open>-1/4, 3/2, -1/4\<close> of a kernel with
  negative lobes and the samples 0, 255, 0 the accumulator passes \<open>255 * 2\<^sup>2\<^sup>2\<close> and the
  clip is 255.  With the weights of a long Lanczos row, whose taps repeat above \<open>2\<^sup>2\<^sup>4\<close>,
  the sum \<open>2\<^sup>2\<^sup>1 + 255 * 9252139\<close> leaves the 32 bits: the accumulator is negative and the
  clip is 0.
\<close>

lemma clip_saturates_high:
  "accumulate (\<lambda>x. if x = 1 then 255 else 0)
     \<lparr> xmin = 0, xmax = 3, raw_k = rk, ww = w, norm_k = nk,
       intk = [- 1048576, 6291456, - 1048576] \<rparr> = 1606418432 \<and>
   clip8 1606418432 = 255"
  by (simp add: accumulate_def wrap_int_def clip8_def PRECISION_BITS_def push_bit_eq_mult
      upto_rec1)

lemma accumulate_wraps:
  "accumulate (\<lambda>x. if x = 16779362 then 255 else 0)
     \<lparr> xmin = 16779358, xmax = 16779366, raw_k = rk, ww = w, norm_k = nk,
       intk = [0, - 2056031, - 2056031, - 2056031, 9252139, 370086, 370086, 370086] \<rparr> =
     - 1933574699 \<and>
   clip8 (- 1933574699) = 0"
  by (simp add: accumulate_def wrap_int_def clip8_def PRECISION_BITS_def push_bit_eq_mult
      upto_rec1)



subsection \<open>Normalisation\<close>




subsection \<open>Identity\<close>

text \<open>
  C7.  Stretching an 8-bit three-band image to a destination of the same width and the
  same height is claimed to give back the source, up to one unit in every sample, for
  each of the four filters.  With the bicubic filter a column of two pixels, black above
  white, comes out as 227 above 28: the kernel is 8 at the distance 1, where the cubic
  is 0, so each pixel takes 8/9 of its neighbour.
\<close>

theorem bicubic_same_size_not_identity:
  "ImagingStretch ieee754 malloc_succeeds
     (Some (rgb_image 1 2 [[0, 0, 0, 0], [0, 0, 0, 0]]))
     (Some (rgb_image 1 2 [[0, 0, 0, 0], [255, 255, 255, 0]])) IMAGING_TRANSFORM_BICUBIC =
   (Inr (), Some (rgb_image 1 2 [[227, 227, 227, 0], [28, 28, 28, 0]]))"
  by (simp add: stretch_eval bicubic_setup bicubic_row0 bicubic_row1)

subsection \<open>Mode mismatch\<close>

text \<open>
  C8.  For every source and destination whose sample type or band count (their mode)
  differ, the call returns the mode error at once and writes no pixel of the
  destination.  The code compares the mode strings; \<open>layout\<close> is any table that gives
  the sample type and the band count of a mode, as the image constructor fixes them.
\<close>

theorem mode_mismatch_rejected:
  assumes "mode imIn \<noteq> mode imOut \<or>
           ((type imIn, bands imIn) = layout (mode imIn) \<and>
            (type imOut, bands imOut) = layout (mode imOut) \<and>
            (type imIn \<noteq> type imOut \<or> bands imIn \<noteq> bands imOut))"
  shows "ImagingStretch fp malloc_ok (Some imOut) (Some imIn) f = (Inl ModeError, Some imOut)"
proof -
  from assms have "mode imIn \<noteq> mode imOut"
    by (metis prod.inject)
  then show ?thesis
    by (simp add: ImagingStretch_def)
qed

theorem mode_mismatch_rejected_witness:
  "ImagingStretch ieee754 malloc_succeeds (Some (l_image 1 1 [[7]]))
     (Some (rgb_image 1 1 [[10, 20, 30, 0]])) IMAGING_TRANSFORM_NEAREST =
   (Inl ModeError, Some (l_image 1 1 [[7]]))"
proof -
  have "mode (rgb_image 1 1 [[10, 20, 30, 0]]) \<noteq> mode (l_image 1 1 [[7]])"
    by (simp add: rgb_image_def l_image_def)
  then show ?thesis
    by (intro mode_mismatch_rejected disjI1)
qed

subsection \<open>Division by zero\<close>

text \<open>
  Wider than \<open>2\<^sup>2\<^sup>4\<close> pixels, the window itself can be empty: the centre and the two
  bounds round to the same \<^verbatim>\<open>float\<close>.
\<close>

lemma nearest_empty_window:
  "pass_coefficients ieee754 NEAREST 16777219 16777219 16777218 =
     \<lparr> xmin = 16777218, xmax = 16777218, raw_k = [], ww = 0, norm_k = [], intk = [] \<rparr>"
  by (simp add: pass_coefficients_def nearest_long_setup nearest_long_row)

text \<open>
  C9.  For every valid request with one of the four kernels, the window of every
  destination index is claimed non-empty and the total of its raw weights nonzero, so
  that the division by the total never divides by zero.  A source of length 1 stretched
  to the length \<open>2\<^sup>2\<^sup>6\<close> with the box kernel has, at the destination index 0, the window
  \<open>[0, 1)\<close> and the total weight 0: the offset of the only tap, \<open>0.5 - 2\<^sup>-\<^sup>2\<^sup>7\<close>, rounds to
  the \<^verbatim>\<open>float\<close> 0.5, where the kernel is 0.  The code divides 0 by 0 and converts the
  result to \<^verbatim>\<open>int\<close>.
\<close>

theorem nearest_zero_total_weight:
  "xmin (pass_coefficients ieee754 NEAREST 1 67108864 0) = 0 \<and>
   xmax (pass_coefficients ieee754 NEAREST 1 67108864 0) = 1 \<and>
   raw_k (pass_coefficients ieee754 NEAREST 1 67108864 0) = [0] \<and>
   ww (pass_coefficients ieee754 NEAREST 1 67108864 0) = 0 \<and>
   intk (pass_coefficients ieee754 NEAREST 1 67108864 0) = [- 2147483648]"
  by (simp add: pass_coefficients_def nearest_huge_setup nearest_huge_row)

subsection \<open>The write footprint\<close>



end
